theory Spec2Isabelle
  imports Main
begin

section \<open>JavaScript values reaching the Dispatcher\<close>

text \<open>
  The development embeds \<^verbatim>\<open>src/lib/Dispatcher.js\<close>. The arguments of its methods are
  JavaScript values. The ones that matter to the code are \<^verbatim>\<open>undefined\<close>, \<^verbatim>\<open>null\<close>,
  primitive strings, functions (store classes) and other objects (instances, plain
  objects). Of an object or a function the code reads three properties: \<^verbatim>\<open>storeName\<close>,
  \<^verbatim>\<open>name\<close> and \<^verbatim>\<open>handlers\<close>.

  \<^item> \<open>obj_ref\<close> is the identity of the object: two distinct objects carry distinct
    references, so \<^verbatim>\<open>===\<close> on objects is equality of the records.
  \<^item> \<open>obj_storeName\<close> and \<open>obj_name\<close> are \<open>None\<close> when the property is absent
    (\<^verbatim>\<open>undefined\<close>) and hold a string otherwise (the type the JSDoc of
    \<^verbatim>\<open>getStoreName\<close> gives).
  \<^item> \<open>obj_handlers\<close> is \<open>None\<close> when the property is absent, and otherwise the own
    enumerable entries of the handler map in the order \<^verbatim>\<open>Object.keys\<close> enumerates them.
    A handler is a method name or a function (\<^verbatim>\<open>{String|Function} handler\<close>).

  The three properties are data properties: reading them runs no getter. A number or a
  boolean has none of them and is not a function, so in every method it behaves like an
  object without the three properties. The members of \<^verbatim>\<open>Object.prototype\<close> are not
  themselves passed as arguments.
\<close>

datatype handler = MethodName string | Callable nat

record jsobject =
  obj_ref :: nat
  obj_storeName :: "string option"
  obj_name :: "string option"
  obj_handlers :: "(string \<times> handler) list option"

datatype jsval =
    JSUndefined
  | JSNull
  | JSString string
  | JSFunction jsobject
  | JSObject jsobject

text \<open>The exceptions the code can raise: \<^verbatim>\<open>new Error(message)\<close>, and the
  TypeError and the ReferenceError that the language raises itself.\<close>

datatype error = Error string | TypeError | ReferenceError

text \<open>The \<^verbatim>\<open>typeof\<close> operator.\<close>

fun typeof :: "jsval \<Rightarrow> string" where
  "typeof JSUndefined = ''undefined''"
| "typeof JSNull = ''object''"
| "typeof (JSString s) = ''string''"
| "typeof (JSFunction f) = ''function''"
| "typeof (JSObject ob) = ''object''"

text \<open>Truthiness (\<^verbatim>\<open>ToBoolean\<close>): \<^verbatim>\<open>undefined\<close>, \<^verbatim>\<open>null\<close> and the empty string are
  falsy; every object and function is truthy.\<close>

fun truthy :: "jsval \<Rightarrow> bool" where
  "truthy JSUndefined = False"
| "truthy JSNull = False"
| "truthy (JSString s) = (s \<noteq> [])"
| "truthy (JSFunction f) = True"
| "truthy (JSObject ob) = True"

subsection \<open>Plain objects used as dictionaries\<close>

text \<open>
  \<^verbatim>\<open>this.stores\<close>, \<^verbatim>\<open>this.domains\<close> and \<^verbatim>\<open>this.handlers\<close> are created by the object
  literal \<^verbatim>\<open>{}\<close>, so they inherit from \<^verbatim>\<open>Object.prototype\<close>. A read \<^verbatim>\<open>obj[k]\<close> finds
  the own property \<open>k\<close> if there is one, otherwise the property of that name on
  \<^verbatim>\<open>Object.prototype\<close>, otherwise \<^verbatim>\<open>undefined\<close>. The own properties are a map; the
  result of a read says where the value came from.
\<close>

definition Object_prototype :: "string list" where
  "Object_prototype =
     [''constructor'', ''toString'', ''toLocaleString'', ''valueOf'',
      ''hasOwnProperty'', ''isPrototypeOf'', ''propertyIsEnumerable'',
      ''__proto__'', ''__defineGetter__'', ''__defineSetter__'',
      ''__lookupGetter__'', ''__lookupSetter__'']"

datatype 'a property = Own 'a | Inherited string | Absent

definition js_get :: "(string \<rightharpoonup> 'a) \<Rightarrow> string \<Rightarrow> 'a property" where
  "js_get obj k =
     (case obj k of
        Some v \<Rightarrow> Own v
      | None \<Rightarrow> if k \<in> set Object_prototype then Inherited k else Absent)"

text \<open>Truthiness of what a read of a registry returned. Every member of
  \<^verbatim>\<open>Object.prototype\<close> is a function or an object, hence truthy.\<close>

fun truthy_property :: "jsval property \<Rightarrow> bool" where
  "truthy_property (Own v) = truthy v"
| "truthy_property (Inherited k) = True"
| "truthy_property Absent = False"

text \<open>
  \<^verbatim>\<open>this.stores[storeName] === store\<close>: strict equality with the argument. A value
  of the argument type is never one of the members of \<^verbatim>\<open>Object.prototype\<close>.
\<close>

fun strict_equal :: "jsval property \<Rightarrow> jsval \<Rightarrow> bool" where
  "strict_equal (Own v) w = (v = w)"
| "strict_equal (Inherited k) w = False"
| "strict_equal Absent w = (w = JSUndefined)"

section \<open>The Dispatcher\<close>

text \<open>A handler binding \<^verbatim>\<open>{name: ..., handler: ...}\<close>. The \<open>name\<close> field holds what
  \<^verbatim>\<open>getStoreName\<close> returned: a string, or \<open>None\<close> for \<^verbatim>\<open>undefined\<close>.\<close>

record binding =
  name :: "string option"
  handler :: handler

text \<open>An own property of \<^verbatim>\<open>this.handlers\<close> is an array of bindings, or (after line 154
  copied an inherited member into the table) a function of \<^verbatim>\<open>Object.prototype\<close>.\<close>

datatype handler_entry = Bindings "binding list" | Builtin string

record dispatcher =
  stores :: "string \<rightharpoonup> jsval"
  domains :: "string \<rightharpoonup> jsval"
  handlers :: "string \<rightharpoonup> handler_entry"

text \<open>A call either returns (\<open>None\<close>) or throws (\<open>Some e\<close>); in both cases the
  dispatcher is left in the state the second component gives.\<close>

type_synonym outcome = "error option \<times> dispatcher"

subsection \<open>getStoreName (lines 136-141)\<close>

text \<open>\<^verbatim>\<open>store.storeName || store.name\<close>: the first operand if it is truthy, otherwise
  the second.\<close>

definition or_name :: "string option \<Rightarrow> string option \<Rightarrow> string option" where
  "or_name a b = (case a of None \<Rightarrow> b | Some s \<Rightarrow> if s \<noteq> [] then Some s else b)"

fun getStoreName :: "jsval \<Rightarrow> error + string option" where
  "getStoreName (JSString s) = Inr (Some s)"
| "getStoreName JSUndefined = Inl TypeError"
| "getStoreName JSNull = Inl TypeError"
| "getStoreName (JSFunction f) = Inr (or_name (obj_storeName f) (obj_name f))"
| "getStoreName (JSObject ob) = Inr (or_name (obj_storeName ob) (obj_name ob))"

text \<open>\<^verbatim>\<open>!storeName\<close> is false exactly for a non-empty string.\<close>

fun truthy_name :: "string option \<Rightarrow> bool" where
  "truthy_name None = False"
| "truthy_name (Some s) = (s \<noteq> [])"

text \<open>The property key a name is converted to in \<^verbatim>\<open>this.stores[storeName]\<close>.\<close>

fun property_key :: "string option \<Rightarrow> string" where
  "property_key None = ''undefined''"
| "property_key (Some s) = s"

subsection \<open>registerHandler, the method \<^verbatim>\<open>_registerHandler\<close> (lines 153-160)\<close>

text \<open>
  Line 154, \<^verbatim>\<open>this.handlers[action] = this.handlers[action] || []\<close>. Every value the
  read can find is truthy, so \<^verbatim>\<open>[]\<close> is taken only when the read finds nothing. The
  assignment creates or overwrites the own property, except for the key
  \<^verbatim>\<open>__proto__\<close> when it is not an own property: that assignment runs the setter of
  \<^verbatim>\<open>Object.prototype\<close>, which here sets the prototype to what it already is.
\<close>

definition ensure_list :: "dispatcher \<Rightarrow> string \<Rightarrow> dispatcher" where
  "ensure_list d action =
     (case js_get (handlers d) action of
        Own e \<Rightarrow> d\<lparr>handlers := (handlers d)(action \<mapsto> e)\<rparr>
      | Inherited k \<Rightarrow>
          if k = ''__proto__'' then d
          else d\<lparr>handlers := (handlers d)(action \<mapsto> Builtin k)\<rparr>
      | Absent \<Rightarrow> d\<lparr>handlers := (handlers d)(action \<mapsto> Bindings [])\<rparr>)"

text \<open>
  Lines 155-158, \<^verbatim>\<open>this.handlers[action].push({name: this.getStoreName(name),
  handler: handler})\<close>. Only an array has \<^verbatim>\<open>push\<close>; on a member of
  \<^verbatim>\<open>Object.prototype\<close> the property \<^verbatim>\<open>push\<close> is \<^verbatim>\<open>undefined\<close> and the call throws
  a TypeError. The value returned on line 159 is ignored by the only caller and is left
  out.
\<close>

definition registerHandler :: "dispatcher \<Rightarrow> string \<Rightarrow> string \<Rightarrow> handler \<Rightarrow> outcome" where
  "registerHandler d action nm h =
     (let d1 = ensure_list d action in
      case getStoreName (JSString nm) of
        Inl e \<Rightarrow> (Some e, d1)
      | Inr n \<Rightarrow>
          (case js_get (handlers d1) action of
             Own (Bindings bs) \<Rightarrow>
               (None, d1\<lparr>handlers :=
                   (handlers d1)(action \<mapsto> Bindings (bs @ [\<lparr>name = n, handler = h\<rparr>]))\<rparr>)
           | Own (Builtin k) \<Rightarrow> (Some TypeError, d1)
           | Inherited k \<Rightarrow> (Some TypeError, d1)
           | Absent \<Rightarrow> (Some TypeError, d1)))"

subsection \<open>registerStore (lines 50-72)\<close>

text \<open>The loop of lines 67-70 over \<^verbatim>\<open>Object.keys(store.handlers)\<close>; an exception
  leaves the loop.\<close>

fun storeHandlersEach :: "dispatcher \<Rightarrow> string \<Rightarrow> (string \<times> handler) list \<Rightarrow> outcome" where
  "storeHandlersEach d storeName [] = (None, d)"
| "storeHandlersEach d storeName ((action, h) # rest) =
     (case registerHandler d action storeName h of
        (Some e, d') \<Rightarrow> (Some e, d')
      | (None, d') \<Rightarrow> storeHandlersEach d' storeName rest)"

text \<open>\<^verbatim>\<open>store.handlers\<close> of the argument (read only when it is a function).\<close>

fun handlers_of :: "jsval \<Rightarrow> (string \<times> handler) list option" where
  "handlers_of (JSFunction f) = obj_handlers f"
| "handlers_of (JSObject ob) = obj_handlers ob"
| "handlers_of v = None"

definition invalid_store_error :: error where
  "invalid_store_error = Error ''registerStore requires a constructor as first parameter''"

definition missing_name_error :: error where
  "missing_name_error = Error ''Store is required to have a `storeName` property.''"

definition duplicate_store_error :: "string \<Rightarrow> error" where
  "duplicate_store_error storeName =
     Error (''Store with name `'' @ storeName @ ''` has already been registered.'')"

definition duplicate_domain_error :: "string \<Rightarrow> error" where
  "duplicate_domain_error domainName =
     Error (''Domain with name `'' @ domainName @ ''` has already been registered.'')"

definition registerStore :: "dispatcher \<Rightarrow> jsval \<Rightarrow> outcome" where
  "registerStore d store =
     \<comment> \<open>lines 51-53\<close>
     (if typeof store \<noteq> ''function'' then (Some invalid_store_error, d)
      \<comment> \<open>line 54\<close>
      else case getStoreName store of
        Inl e \<Rightarrow> (Some e, d)
      | Inr storeName \<Rightarrow>
          \<comment> \<open>lines 55-57\<close>
          if \<not> truthy_name storeName then (Some missing_name_error, d)
          \<comment> \<open>lines 58-64\<close>
          else if truthy_property (js_get (stores d) (property_key storeName)) then
            (if strict_equal (js_get (stores d) (property_key storeName)) store
             then (None, d)
             else (Some (duplicate_store_error (property_key storeName)), d))
          else
            \<comment> \<open>line 65\<close>
            (let d1 = d\<lparr>stores := (stores d)(property_key storeName \<mapsto> store)\<rparr> in
             \<comment> \<open>lines 66-71\<close>
             case handlers_of store of
               None \<Rightarrow> (None, d1)
             | Some hs \<Rightarrow> storeHandlersEach d1 (property_key storeName) hs))"

subsection \<open>registerDomain (lines 74-87)\<close>

definition registerDomain :: "dispatcher \<Rightarrow> jsval \<Rightarrow> outcome" where
  "registerDomain d domain =
     \<comment> \<open>line 75: no \<^verbatim>\<open>typeof\<close> check comes before it\<close>
     (case getStoreName domain of
        Inl e \<Rightarrow> (Some e, d)
      | Inr domainName \<Rightarrow>
          \<comment> \<open>lines 76-78: the message is the one of \<^verbatim>\<open>registerStore\<close>\<close>
          if \<not> truthy_name domainName then (Some missing_name_error, d)
          \<comment> \<open>lines 79-85\<close>
          else if truthy_property (js_get (domains d) (property_key domainName)) then
            (if strict_equal (js_get (domains d) (property_key domainName)) domain
             then (None, d)
             else (Some (duplicate_domain_error (property_key domainName)), d))
          \<comment> \<open>line 86\<close>
          else (None, d\<lparr>domains := (domains d)(property_key domainName \<mapsto> domain)\<rparr>))"

subsection \<open>isRegistered (lines 96-110)\<close>

definition isRegistered :: "dispatcher \<Rightarrow> jsval \<Rightarrow> error + bool" where
  "isRegistered d store =
     \<comment> \<open>line 97\<close>
     (case getStoreName store of
        Inl e \<Rightarrow> Inl e
      | Inr storeName \<Rightarrow>
          \<comment> \<open>line 98\<close>
          (let storeInstance = js_get (stores d) (property_key storeName) in
           \<comment> \<open>lines 100-102\<close>
           if \<not> truthy_property storeInstance then Inr False
           \<comment> \<open>lines 104-109\<close>
           else if typeof store = ''function'' \<and> \<not> strict_equal storeInstance store
           then Inr False
           else Inr True))"

subsection \<open>isRegisteredDomain (lines 112-126)\<close>

text \<open>
  Line 113 resolves the name. Line 114 is \<^verbatim>\<open>this.domainName[storeName]\<close>: the
  Dispatcher has no property \<^verbatim>\<open>domainName\<close> (its own properties are \<^verbatim>\<open>stores\<close>,
  \<^verbatim>\<open>domains\<close> and \<^verbatim>\<open>handlers\<close>), so the base is \<^verbatim>\<open>undefined\<close>; then the key expression
  \<^verbatim>\<open>storeName\<close> is evaluated, an identifier that is declared neither in the function nor
  in the module, which throws a ReferenceError. Were the identifier bound, the property
  read on \<^verbatim>\<open>undefined\<close> would throw a TypeError. Lines 116-125 are never reached.
\<close>

definition isRegisteredDomain_scope :: "string list" where
  "isRegisteredDomain_scope =
     [''domain'', ''domainName'', ''domainInstance'',
      ''Action'', ''DEFAULT'', ''DispatcherContext'', ''Dispatcher'']"

definition isRegisteredDomain :: "dispatcher \<Rightarrow> jsval \<Rightarrow> error + bool" where
  "isRegisteredDomain d domain =
     (case getStoreName domain of
        Inl e \<Rightarrow> Inl e
      | Inr domainName \<Rightarrow>
          if ''storeName'' \<in> set isRegisteredDomain_scope then Inl TypeError
          else Inl ReferenceError)"

subsection \<open>The constructor (lines 18-35)\<close>

text \<open>The state after lines 22-26.\<close>

definition new_Dispatcher :: dispatcher where
  "new_Dispatcher =
     \<lparr>stores = Map.empty, domains = Map.empty,
      handlers = [''default'' \<mapsto> Bindings []]\<rparr>"

text \<open>\<^verbatim>\<open>forEach\<close> with a callback that can throw.\<close>

fun forEach :: "(dispatcher \<Rightarrow> jsval \<Rightarrow> outcome) \<Rightarrow> dispatcher \<Rightarrow> jsval list \<Rightarrow> outcome" where
  "forEach f d [] = (None, d)"
| "forEach f d (x # xs) =
     (case f d x of
        (Some e, d') \<Rightarrow> (Some e, d')
      | (None, d') \<Rightarrow> forEach f d' xs)"

text \<open>The options after the defaults of lines 19-21.\<close>

record options =
  opt_stores :: "jsval list"
  opt_domains :: "jsval list"

definition Dispatcher :: "options \<Rightarrow> outcome" where
  "Dispatcher opts =
     (case forEach registerStore new_Dispatcher (opt_stores opts) of
        (Some e, d) \<Rightarrow> (Some e, d)
      | (None, d) \<Rightarrow> forEach registerDomain d (opt_domains opts))"

subsection \<open>Reading the handler table\<close>

text \<open>The bindings a consumer finds under \<^verbatim>\<open>dispatcher.handlers[action]\<close>: the array
  stored there, and no binding when the read finds no array.\<close>

definition bindings_for :: "dispatcher \<Rightarrow> string \<Rightarrow> binding list" where
  "bindings_for d action =
     (case js_get (handlers d) action of
        Own (Bindings bs) \<Rightarrow> bs
      | Own (Builtin k) \<Rightarrow> []
      | Inherited k \<Rightarrow> []
      | Absent \<Rightarrow> [])"

section \<open>Example stores\<close>

text \<open>Concrete classes used to run the methods: \<open>store_A\<close> is a class named \<^verbatim>\<open>A\<close>
  (no \<^verbatim>\<open>storeName\<close>) handling action \<^verbatim>\<open>foo\<close>; \<open>store_B\<close> is a different class that
  claims the name \<^verbatim>\<open>A\<close> through \<^verbatim>\<open>storeName\<close>.\<close>

definition store_A :: jsobject where
  "store_A = \<lparr>obj_ref = 1, obj_storeName = None, obj_name = Some ''A'',
               obj_handlers = Some [(''foo'', MethodName ''onFoo'')]\<rparr>"

definition store_B :: jsobject where
  "store_B = \<lparr>obj_ref = 2, obj_storeName = Some ''A'', obj_name = Some ''B'',
               obj_handlers = Some [(''foo'', Callable 0)]\<rparr>"

text \<open>\<open>store_S1\<close> and \<open>store_S2\<close> are two classes with different names that both
  handle action \<^verbatim>\<open>foo\<close>; \<open>store_D\<close> declares a handler under the literal action name
  \<^verbatim>\<open>default\<close>.\<close>

definition store_S1 :: jsobject where
  "store_S1 = \<lparr>obj_ref = 3, obj_storeName = None, obj_name = Some ''S1'',
                obj_handlers = Some [(''foo'', MethodName ''h1'')]\<rparr>"

definition store_S2 :: jsobject where
  "store_S2 = \<lparr>obj_ref = 4, obj_storeName = Some ''S2'', obj_name = Some ''Store'',
                obj_handlers = Some [(''foo'', Callable 2)]\<rparr>"

definition store_D :: jsobject where
  "store_D = \<lparr>obj_ref = 5, obj_storeName = Some ''D'', obj_name = Some ''D'',
               obj_handlers = Some [(''foo'', MethodName ''onFoo''),
                                    (''default'', MethodName ''onDefault'')]\<rparr>"

text \<open>\<open>domain_A\<close> is a domain object (not a function) whose \<^verbatim>\<open>storeName\<close> is
  \<^verbatim>\<open>A\<close>.\<close>

definition domain_A :: jsobject where
  "domain_A = \<lparr>obj_ref = 7, obj_storeName = Some ''A'', obj_name = Some ''ADomain'',
                obj_handlers = None\<rparr>"

text \<open>\<open>store_T\<close> handles the actions \<^verbatim>\<open>foo\<close> and \<^verbatim>\<open>toString\<close>; \<open>store_C\<close> has the
  \<^verbatim>\<open>storeName\<close> \<^verbatim>\<open>constructor\<close>. Both names are strings like any other, and both are
  also names of members of \<^verbatim>\<open>Object.prototype\<close>.\<close>

definition store_T :: jsobject where
  "store_T = \<lparr>obj_ref = 6, obj_storeName = Some ''T'', obj_name = Some ''T'',
               obj_handlers = Some [(''foo'', MethodName ''onFoo''),
                                    (''toString'', MethodName ''describe'')]\<rparr>"

definition store_C :: jsobject where
  "store_C = \<lparr>obj_ref = 8, obj_storeName = Some ''constructor'', obj_name = Some ''C'',
               obj_handlers = None\<rparr>"

text \<open>\<open>domain_C\<close> is a domain object whose \<^verbatim>\<open>storeName\<close> is \<^verbatim>\<open>constructor\<close>.\<close>

definition domain_C :: jsobject where
  "domain_C = \<lparr>obj_ref = 9, obj_storeName = Some ''constructor'', obj_name = None,
                obj_handlers = None\<rparr>"

subsection \<open>Stores seen as domains\<close>

text \<open>The Dispatcher with the two registries exchanged, to compare what
  \<^verbatim>\<open>registerDomain\<close> does to the one with what \<^verbatim>\<open>registerStore\<close> does to the other.\<close>

definition swap_registries :: "dispatcher \<Rightarrow> dispatcher" where
  "swap_registries d = \<lparr>stores = domains d, domains = stores d, handlers = handlers d\<rparr>"

subsection \<open>The bindings a store declares\<close>

text \<open>The bindings that a store of canonical name \<open>n\<close> with the handler map \<open>hs\<close>
  declares for an action, in the enumeration order of the map.\<close>

definition declared :: "string option \<Rightarrow> string \<Rightarrow> (string \<times> handler) list \<Rightarrow> binding list" where
  "declared n action hs =
     map (\<lambda>kh. \<lparr>name = n, handler = snd kh\<rparr>) (filter (\<lambda>kh. fst kh = action) hs)"

subsection \<open>Stores that declare a default handler\<close>

text \<open>Binding \<open>b\<close> is one that store \<open>s\<close> declares under the literal action name
  \<^verbatim>\<open>default\<close>: the handler map of \<open>s\<close> has an entry \<^verbatim>\<open>default\<close> with the handler of
  \<open>b\<close>, and the name of \<open>b\<close> is the canonical name of \<open>s\<close>.\<close>

definition declares_default :: "jsval \<Rightarrow> binding \<Rightarrow> bool" where
  "declares_default s b =
     (case handlers_of s of
        None \<Rightarrow> False
      | Some hs \<Rightarrow> (''default'', handler b) \<in> set hs \<and> getStoreName s = Inr (name b))"

section \<open>Frame lemmas: which registry a method leaves alone\<close>

lemma js_get_upd_same [simp]: "js_get (m(k \<mapsto> v)) k = Own v"
  by (simp add: js_get_def)

lemma js_get_upd_other [simp]: "k' \<noteq> k \<Longrightarrow> js_get (m(k \<mapsto> v)) k' = js_get m k'"
  by (simp add: js_get_def)

lemma ensure_list_stores [simp]: "stores (ensure_list d a) = stores d"
  by (simp add: ensure_list_def split: property.splits)

lemma ensure_list_domains [simp]: "domains (ensure_list d a) = domains d"
  by (simp add: ensure_list_def split: property.splits)

lemma registerHandler_stores [simp]: "stores (snd (registerHandler d a n h)) = stores d"
  by (simp add: registerHandler_def Let_def split: property.splits handler_entry.splits)

lemma registerHandler_domains [simp]: "domains (snd (registerHandler d a n h)) = domains d"
  by (simp add: registerHandler_def Let_def split: property.splits handler_entry.splits)

lemma storeHandlersEach_stores [simp]: "stores (snd (storeHandlersEach d n hs)) = stores d"
proof (induction hs arbitrary: d)
  case Nil
  show ?case by simp
next
  case (Cons kh hs)
  obtain a h where kh: "kh = (a, h)" by (cases kh)
  obtain r d' where step: "registerHandler d a n h = (r, d')"
    by (cases "registerHandler d a n h")
  have "stores d' = stores d" using registerHandler_stores [of d a n h] step by simp
  then show ?case using Cons.IH [of d'] kh step by (cases r) simp_all
qed

lemma storeHandlersEach_domains [simp]: "domains (snd (storeHandlersEach d n hs)) = domains d"
proof (induction hs arbitrary: d)
  case Nil
  show ?case by simp
next
  case (Cons kh hs)
  obtain a h where kh: "kh = (a, h)" by (cases kh)
  obtain r d' where step: "registerHandler d a n h = (r, d')"
    by (cases "registerHandler d a n h")
  have "domains d' = domains d" using registerHandler_domains [of d a n h] step by simp
  then show ?case using Cons.IH [of d'] kh step by (cases r) simp_all
qed

lemma registerStore_domains: "domains (snd (registerStore d s)) = domains d"
  by (simp add: registerStore_def Let_def split: sum.splits option.splits)

lemma registerDomain_stores: "stores (snd (registerDomain d v)) = stores d"
  by (simp add: registerDomain_def split: sum.splits)

lemma registerDomain_handlers: "handlers (snd (registerDomain d v)) = handlers d"
  by (simp add: registerDomain_def split: sum.splits)

lemmas run_defs =
  registerStore_def registerDomain_def registerHandler_def ensure_list_def js_get_def
  Object_prototype_def new_Dispatcher_def bindings_for_def isRegistered_def or_name_def
  Let_def

section \<open>Registering a store\<close>

lemma typeof_function: "typeof s = ''function'' \<longleftrightarrow> (\<exists>f. s = JSFunction f)"
  by (cases s) simp_all

lemma strict_equal_truthy:
  "truthy_property p \<Longrightarrow> strict_equal p s \<longleftrightarrow> p = Own s"
  by (cases p) auto

lemma registerStore_returns_bound:
  assumes "registerStore d s = (None, d')"
  shows "\<exists>f nm. s = JSFunction f \<and> getStoreName s = Inr (Some nm) \<and> nm \<noteq> []
           \<and> js_get (stores d') nm = Own s"
proof -
  from assms have fn: "typeof s = ''function''"
    by (auto simp: registerStore_def split: if_splits)
  then obtain f where s: "s = JSFunction f" by (auto simp: typeof_function)
  obtain nv where nv: "getStoreName s = Inr nv" using s by simp
  from assms fn nv have tn: "truthy_name nv"
    by (auto simp: registerStore_def split: if_splits)
  then obtain nm where nm: "nv = Some nm" "nm \<noteq> []" by (cases nv) auto
  have "js_get (stores d') nm = Own s"
  proof (cases "truthy_property (js_get (stores d) nm)")
    case True
    with assms fn nv nm have "strict_equal (js_get (stores d) nm) s" "d' = d"
      by (auto simp: registerStore_def split: if_splits)
    with True show ?thesis by (simp add: strict_equal_truthy)
  next
    case False
    from fn nv nm False have "stores (snd (registerStore d s)) = (stores d)(nm \<mapsto> s)"
      by (simp add: registerStore_def Let_def split: option.splits)
    with assms have "stores d' = (stores d)(nm \<mapsto> s)" by simp
    then show ?thesis by simp
  qed
  with s nv nm show ?thesis by blast
qed

text \<open>
  Claim C3. Registering the identical store reference a second time succeeds silently
  and leaves the registry exactly as the first registration left it: line 61 returns
  before the store is bound again and before the loop over its handlers, so the bindings
  of every action are the ones the first registration made.
\<close>

theorem reregistration_idempotent:
  assumes "registerStore d s = (None, d1)"
  shows "registerStore d1 s = (None, d1)
         \<and> (\<forall>a. bindings_for (snd (registerStore d1 s)) a = bindings_for d1 a)"
proof -
  from registerStore_returns_bound [OF assms] obtain f nm where
    "s = JSFunction f" "getStoreName s = Inr (Some nm)" "nm \<noteq> []"
    "js_get (stores d1) nm = Own s" by blast
  then have "registerStore d1 s = (None, d1)"
    by (simp add: registerStore_def)
  then show ?thesis by simp
qed

theorem reregistration_idempotent_witness:
  "registerStore (snd (registerStore new_Dispatcher (JSFunction store_A))) (JSFunction store_A)
     = (None, snd (registerStore new_Dispatcher (JSFunction store_A)))
   \<and> bindings_for
        (snd (registerStore (snd (registerStore new_Dispatcher (JSFunction store_A)))
               (JSFunction store_A))) ''foo''
     = [\<lparr>name = Some ''A'', handler = MethodName ''onFoo''\<rparr>]"
proof -
  have first: "registerStore new_Dispatcher (JSFunction store_A)
                 = (None, snd (registerStore new_Dispatcher (JSFunction store_A)))"
    by (simp add: run_defs store_A_def)
  have one: "bindings_for (snd (registerStore new_Dispatcher (JSFunction store_A))) ''foo''
               = [\<lparr>name = Some ''A'', handler = MethodName ''onFoo''\<rparr>]"
    by (simp add: run_defs store_A_def)
  from reregistration_idempotent [OF first] one show ?thesis by simp
qed

section \<open>The order of the handler table\<close>

lemma registerHandler_returns:
  "registerHandler d a n h = (None, d') \<Longrightarrow>
     js_get (handlers d') a = Own (Bindings (bindings_for d a @ [\<lparr>name = Some n, handler = h\<rparr>]))"
  by (auto simp: registerHandler_def ensure_list_def bindings_for_def Let_def
        split: property.splits handler_entry.splits if_splits)

lemma registerHandler_elsewhere:
  "a' \<noteq> a \<Longrightarrow> js_get (handlers (snd (registerHandler d a n h))) a' = js_get (handlers d) a'"
  by (auto simp: registerHandler_def ensure_list_def Let_def
        split: property.splits handler_entry.splits if_splits)

lemma registerStore_fresh:
  assumes "registerStore d s = (None, d')" and "isRegistered d s = Inr False"
    and "getStoreName s = Inr nv"
  shows "\<exists>nm. nv = Some nm \<and> nm \<noteq> []
           \<and> storeHandlersEach (d\<lparr>stores := (stores d)(nm \<mapsto> s)\<rparr>) nm
                (case handlers_of s of None \<Rightarrow> [] | Some hs \<Rightarrow> hs) = (None, d')"
proof -
  from assms(1) have fn: "typeof s = ''function''"
    by (auto simp: registerStore_def split: if_splits)
  from assms(1,3) fn have "truthy_name nv"
    by (auto simp: registerStore_def split: if_splits)
  then obtain nm where nm: "nv = Some nm" "nm \<noteq> []" by (cases nv) auto
  have unbound: "\<not> truthy_property (js_get (stores d) nm)"
  proof
    assume t: "truthy_property (js_get (stores d) nm)"
    with assms(1,3) fn nm have "strict_equal (js_get (stores d) nm) s"
      by (auto simp: registerStore_def split: if_splits)
    with t assms(3) nm fn have "isRegistered d s = Inr True"
      by (simp add: isRegistered_def)
    with assms(2) show False by simp
  qed
  with assms(1,3) fn nm show ?thesis
    by (auto simp: registerStore_def Let_def split: option.splits)
qed

lemma storeHandlersEach_single:
  assumes "storeHandlersEach d n [(a, h)] = (None, d')"
  shows "registerHandler d a n h = (None, d')"
proof (cases "registerHandler d a n h")
  case (Pair r d'')
  with assms show ?thesis by (cases r) simp_all
qed

lemma registerHandler_appends:
  assumes "registerHandler d a' n h = (None, d')"
  shows "bindings_for d' a = bindings_for d a @ declared (Some n) a [(a', h)]"
proof (cases "a = a'")
  case True
  with registerHandler_returns [OF assms] show ?thesis
    by (simp add: bindings_for_def declared_def)
next
  case False
  with registerHandler_elsewhere [of a a' d n h] assms show ?thesis
    by (simp add: bindings_for_def declared_def)
qed

lemma storeHandlersEach_appends:
  assumes "storeHandlersEach d n hs = (None, d')"
  shows "bindings_for d' a = bindings_for d a @ declared (Some n) a hs"
  using assms
proof (induction hs arbitrary: d)
  case Nil
  then show ?case by (simp add: declared_def)
next
  case (Cons kh hs)
  obtain a' h where kh: "kh = (a', h)" by (cases kh)
  obtain r d1 where step: "registerHandler d a' n h = (r, d1)"
    by (cases "registerHandler d a' n h")
  with Cons.prems kh have r: "r = None" and rest: "storeHandlersEach d1 n hs = (None, d')"
    by (cases r; simp)+
  from registerHandler_appends [of d a' n h d1 a] step r
  have "bindings_for d1 a = bindings_for d a @ declared (Some n) a [(a', h)]" by simp
  with Cons.IH [OF rest] kh show ?case by (simp add: declared_def)
qed

lemma registerStore_appends:
  assumes reg: "registerStore d s = (None, d')" and new: "isRegistered d s = Inr False"
    and n: "getStoreName s = Inr n" and hs: "handlers_of s = Some hs"
  shows "bindings_for d' a = bindings_for d a @ declared n a hs"
proof -
  from registerStore_fresh [OF reg new n] hs obtain m where m: "n = Some m"
    and run: "storeHandlersEach (d\<lparr>stores := (stores d)(m \<mapsto> s)\<rparr>) m hs = (None, d')"
    by auto
  from storeHandlersEach_appends [OF run, of a] m show ?thesis
    by (simp add: bindings_for_def)
qed

text \<open>
  Claim C2. Let \<open>S1\<close> and \<open>S2\<close> be two stores, neither of them registered yet, and
  register \<open>S1\<close> and then \<open>S2\<close>. Under every action \<open>a\<close> the handler table then
  holds the bindings that were there before, followed by the bindings \<open>S1\<close> declares for
  \<open>a\<close> and then the bindings \<open>S2\<close> declares for \<open>a\<close>, each store's in the enumeration
  order of its handler map: appended in registration order, not reversed, deduplicated
  or merged. In particular, when the handler map of \<open>S1\<close> is \<^verbatim>\<open>{a: h1}\<close> and that of
  \<open>S2\<close> is \<^verbatim>\<open>{a: h2}\<close>, the list of \<open>a\<close> is the previous one followed by
  \<^verbatim>\<open>{name: canonicalName(S1), handler: h1}\<close> and
  \<^verbatim>\<open>{name: canonicalName(S2), handler: h2}\<close>; on a new Dispatcher it is exactly these
  two bindings.
\<close>

theorem handler_order:
  assumes hs1: "obj_handlers S1 = Some hs1" and hs2: "obj_handlers S2 = Some hs2"
    and n1: "getStoreName (JSFunction S1) = Inr n1" and n2: "getStoreName (JSFunction S2) = Inr n2"
    and new1: "isRegistered d (JSFunction S1) = Inr False"
    and reg1: "registerStore d (JSFunction S1) = (None, d1)"
    and new2: "isRegistered d1 (JSFunction S2) = Inr False"
    and reg2: "registerStore d1 (JSFunction S2) = (None, d2)"
  shows "bindings_for d2 a = bindings_for d a @ declared n1 a hs1 @ declared n2 a hs2
         \<and> (hs1 = [(a, h1)] \<and> hs2 = [(a, h2)] \<longrightarrow>
              js_get (handlers d2) a =
                Own (Bindings (bindings_for d a @
                       [\<lparr>name = n1, handler = h1\<rparr>, \<lparr>name = n2, handler = h2\<rparr>])))"
proof
  have "bindings_for d1 a = bindings_for d a @ declared n1 a hs1"
    using registerStore_appends [OF reg1 new1 n1] hs1 by simp
  moreover have "bindings_for d2 a = bindings_for d1 a @ declared n2 a hs2"
    using registerStore_appends [OF reg2 new2 n2] hs2 by simp
  ultimately show all: "bindings_for d2 a = bindings_for d a @ declared n1 a hs1 @ declared n2 a hs2"
    by simp
  show "hs1 = [(a, h1)] \<and> hs2 = [(a, h2)] \<longrightarrow>
          js_get (handlers d2) a =
            Own (Bindings (bindings_for d a @
                   [\<lparr>name = n1, handler = h1\<rparr>, \<lparr>name = n2, handler = h2\<rparr>]))"
  proof
    assume single: "hs1 = [(a, h1)] \<and> hs2 = [(a, h2)]"
    from registerStore_fresh [OF reg2 new2 n2] hs2 single obtain m2 where
      "storeHandlersEach (d1\<lparr>stores := (stores d1)(m2 \<mapsto> JSFunction S2)\<rparr>) m2 [(a, h2)]
         = (None, d2)"
      by auto
    from registerHandler_returns [OF storeHandlersEach_single [OF this]]
    obtain bs where "js_get (handlers d2) a = Own (Bindings bs)" by blast
    moreover from this have "bindings_for d2 a = bs" by (simp add: bindings_for_def)
    ultimately show "js_get (handlers d2) a =
            Own (Bindings (bindings_for d a @
                   [\<lparr>name = n1, handler = h1\<rparr>, \<lparr>name = n2, handler = h2\<rparr>]))"
      using all single by (simp add: declared_def)
  qed
qed

theorem handler_order_witness:
  "js_get (handlers (snd (registerStore (snd (registerStore new_Dispatcher (JSFunction store_S1)))
                            (JSFunction store_S2)))) ''foo''
     = Own (Bindings [\<lparr>name = Some ''S1'', handler = MethodName ''h1''\<rparr>,
                      \<lparr>name = Some ''S2'', handler = Callable 2\<rparr>])"
proof -
  let ?d1 = "snd (registerStore new_Dispatcher (JSFunction store_S1))"
  let ?d2 = "snd (registerStore ?d1 (JSFunction store_S2))"
  have hs1: "obj_handlers store_S1 = Some [(''foo'', MethodName ''h1'')]"
    by (simp add: store_S1_def)
  have hs2: "obj_handlers store_S2 = Some [(''foo'', Callable 2)]"
    by (simp add: store_S2_def)
  have n1: "getStoreName (JSFunction store_S1) = Inr (Some ''S1'')"
    by (simp add: store_S1_def or_name_def)
  have n2: "getStoreName (JSFunction store_S2) = Inr (Some ''S2'')"
    by (simp add: store_S2_def or_name_def)
  have new1: "isRegistered new_Dispatcher (JSFunction store_S1) = Inr False"
    by (simp add: run_defs store_S1_def)
  have reg1: "registerStore new_Dispatcher (JSFunction store_S1) = (None, ?d1)"
    by (simp add: run_defs store_S1_def)
  have new2: "isRegistered ?d1 (JSFunction store_S2) = Inr False"
    by (simp add: run_defs store_S1_def store_S2_def)
  have reg2: "registerStore ?d1 (JSFunction store_S2) = (None, ?d2)"
    by (simp add: run_defs store_S1_def store_S2_def)
  have before: "bindings_for new_Dispatcher ''foo'' = []"
    by (simp add: run_defs)
  from handler_order [OF hs1 hs2 n1 n2 new1 reg1 new2 reg2, of "''foo''" "MethodName ''h1''" "Callable 2"]
    before
  show ?thesis by simp
qed

section \<open>The default bucket\<close>

lemma registerHandler_default:
  assumes "js_get (handlers d) ''default'' = Own (Bindings bs)"
    and "registerHandler d a n h = (r, d')"
  shows "js_get (handlers d') ''default'' =
           Own (Bindings (bs @ (if a = ''default'' then [\<lparr>name = Some n, handler = h\<rparr>] else [])))"
proof (cases "a = ''default''")
  case True
  with assms show ?thesis
    by (auto simp: registerHandler_def ensure_list_def Let_def)
next
  case False
  then have "js_get (handlers (snd (registerHandler d a n h))) ''default''
               = js_get (handlers d) ''default''"
    by (intro registerHandler_elsewhere) simp
  with assms False show ?thesis by simp
qed

lemma storeHandlersEach_default:
  assumes "js_get (handlers d) ''default'' = Own (Bindings bs)"
    and "storeHandlersEach d n hs = (r, d')"
  shows "\<exists>ext. js_get (handlers d') ''default'' = Own (Bindings (bs @ ext))
           \<and> (\<forall>b \<in> set ext. name b = Some n \<and> (''default'', handler b) \<in> set hs)"
  using assms
proof (induction hs arbitrary: d bs)
  case Nil
  then show ?case by simp
next
  case (Cons kh hs)
  obtain a h where kh: "kh = (a, h)" by (cases kh)
  obtain r1 d1 where step: "registerHandler d a n h = (r1, d1)"
    by (cases "registerHandler d a n h")
  let ?one = "if a = ''default'' then [\<lparr>name = Some n, handler = h\<rparr>] else []"
  have d1: "js_get (handlers d1) ''default'' = Own (Bindings (bs @ ?one))"
    using registerHandler_default [OF Cons.prems(1) step] .
  have one: "\<forall>b \<in> set ?one. name b = Some n \<and> (''default'', handler b) \<in> set (kh # hs)"
    using kh by simp
  show ?case
  proof (cases r1)
    case (Some e)
    with Cons.prems(2) kh step have "d' = d1" by simp
    with d1 one show ?thesis by blast
  next
    case None
    with Cons.prems(2) kh step have "storeHandlersEach d1 n hs = (r, d')" by simp
    from Cons.IH [OF d1 this] obtain ext where
      ext: "js_get (handlers d') ''default'' = Own (Bindings ((bs @ ?one) @ ext))"
        "\<forall>b \<in> set ext. name b = Some n \<and> (''default'', handler b) \<in> set hs"
      by blast
    have "\<forall>b \<in> set (?one @ ext). name b = Some n \<and> (''default'', handler b) \<in> set (kh # hs)"
      using one ext(2) by auto
    with ext(1) show ?thesis by (metis append.assoc)
  qed
qed

lemma registerStore_default:
  assumes "js_get (handlers d) ''default'' = Own (Bindings bs)"
    and "registerStore d s = (r, d')"
  shows "\<exists>ext. js_get (handlers d') ''default'' = Own (Bindings (bs @ ext))
           \<and> (\<forall>b \<in> set ext. declares_default s b)"
proof (cases "\<exists>nm hs. getStoreName s = Inr (Some nm) \<and> handlers_of s = Some hs
                 \<and> storeHandlersEach (d\<lparr>stores := (stores d)(nm \<mapsto> s)\<rparr>) nm hs = (r, d')")
  case True
  then obtain nm hs where nm: "getStoreName s = Inr (Some nm)" and hs: "handlers_of s = Some hs"
    and run: "storeHandlersEach (d\<lparr>stores := (stores d)(nm \<mapsto> s)\<rparr>) nm hs = (r, d')"
    by blast
  have "js_get (handlers (d\<lparr>stores := (stores d)(nm \<mapsto> s)\<rparr>)) ''default'' = Own (Bindings bs)"
    using assms(1) by simp
  from storeHandlersEach_default [OF this run] nm hs show ?thesis
    by (auto simp: declares_default_def)
next
  case False
  have "handlers d' = handlers d"
  proof (cases "getStoreName s")
    case (Inl e)
    with assms(2) show ?thesis by (auto simp: registerStore_def split: if_splits)
  next
    case (Inr nv)
    show ?thesis
    proof (cases nv)
      case None
      with Inr assms(2) show ?thesis by (auto simp: registerStore_def split: if_splits)
    next
      case (Some nm)
      with Inr False assms(2) show ?thesis
        by (auto simp: registerStore_def Let_def split: if_splits option.splits)
    qed
  qed
  with assms(1) have "js_get (handlers d') ''default'' = Own (Bindings (bs @ []))" by simp
  then show ?thesis by (metis empty_iff list.set(1))
qed

lemma forEach_registerStore_default:
  assumes "js_get (handlers d) ''default'' = Own (Bindings bs)"
    and "forEach registerStore d ss = (r, d')"
  shows "\<exists>ext. js_get (handlers d') ''default'' = Own (Bindings (bs @ ext))
           \<and> (\<forall>b \<in> set ext. \<exists>s \<in> set ss. declares_default s b)"
  using assms
proof (induction ss arbitrary: d bs)
  case Nil
  then show ?case by simp
next
  case (Cons s ss)
  obtain r1 d1 where step: "registerStore d s = (r1, d1)" by (cases "registerStore d s")
  from registerStore_default [OF Cons.prems(1) step] obtain e1 where
    e1: "js_get (handlers d1) ''default'' = Own (Bindings (bs @ e1))"
      "\<forall>b \<in> set e1. declares_default s b" by blast
  show ?case
  proof (cases r1)
    case (Some e)
    with Cons.prems(2) step have "d' = d1" by simp
    with e1 show ?thesis by (metis list.set_intros(1))
  next
    case None
    with Cons.prems(2) step have "forEach registerStore d1 ss = (r, d')" by simp
    from Cons.IH [OF e1(1) this] obtain e2 where
      e2: "js_get (handlers d') ''default'' = Own (Bindings ((bs @ e1) @ e2))"
        "\<forall>b \<in> set e2. \<exists>s \<in> set ss. declares_default s b" by blast
    have "\<forall>b \<in> set (e1 @ e2). \<exists>t \<in> set (s # ss). declares_default t b"
      using e1(2) e2(2) by auto
    with e2(1) show ?thesis by (metis append.assoc)
  qed
qed

lemma forEach_registerDomain_handlers:
  "handlers (snd (forEach registerDomain d vs)) = handlers d"
proof (induction vs arbitrary: d)
  case Nil
  show ?case by simp
next
  case (Cons v vs)
  obtain r1 d1 where step: "registerDomain d v = (r1, d1)" by (cases "registerDomain d v")
  have "handlers d1 = handlers d" using registerDomain_handlers [of d v] step by simp
  then show ?case using Cons.IH [of d1] step by (cases r1) simp_all
qed

text \<open>
  Claim C6. Right after lines 25-26 of the constructor the handler table has the own key
  \<^verbatim>\<open>default\<close> bound to an empty list. Whatever a sequence of store registrations does
  (also one that ends in an exception), the default list only grows at its end, and only
  by bindings of a store of the sequence that declares a handler under the literal action
  name \<^verbatim>\<open>default\<close>. The same holds for the whole constructor, which registers
  \<^verbatim>\<open>options.stores\<close> and then \<^verbatim>\<open>options.domains\<close>: the default list it leaves holds
  only such bindings, so it is empty when no store of the options declares one.
\<close>

theorem default_bucket:
  "js_get (handlers new_Dispatcher) ''default'' = Own (Bindings [])
   \<and> (forEach registerStore d ss = (r, d') \<longrightarrow>
        js_get (handlers d) ''default'' = Own (Bindings bs) \<longrightarrow>
        (\<exists>ext. js_get (handlers d') ''default'' = Own (Bindings (bs @ ext))
           \<and> (\<forall>b \<in> set ext. \<exists>s \<in> set ss. declares_default s b)))
   \<and> (Dispatcher opts = (r, d') \<longrightarrow>
        (\<exists>ext. js_get (handlers d') ''default'' = Own (Bindings ext)
           \<and> (\<forall>b \<in> set ext. \<exists>s \<in> set (opt_stores opts). declares_default s b)))"
proof (intro conjI impI)
  show new: "js_get (handlers new_Dispatcher) ''default'' = Own (Bindings [])"
    by (simp add: new_Dispatcher_def)
  show "\<exists>ext. js_get (handlers d') ''default'' = Own (Bindings (bs @ ext))
           \<and> (\<forall>b \<in> set ext. \<exists>s \<in> set ss. declares_default s b)"
    if "forEach registerStore d ss = (r, d')"
      and "js_get (handlers d) ''default'' = Own (Bindings bs)"
    using forEach_registerStore_default [OF that(2) that(1)] .
  show "\<exists>ext. js_get (handlers d') ''default'' = Own (Bindings ext)
           \<and> (\<forall>b \<in> set ext. \<exists>s \<in> set (opt_stores opts). declares_default s b)"
    if con: "Dispatcher opts = (r, d')"
  proof -
    obtain r1 d1 where run: "forEach registerStore new_Dispatcher (opt_stores opts) = (r1, d1)"
      by (cases "forEach registerStore new_Dispatcher (opt_stores opts)")
    from forEach_registerStore_default [OF new run] obtain ext where
      ext: "js_get (handlers d1) ''default'' = Own (Bindings ext)"
        "\<forall>b \<in> set ext. \<exists>s \<in> set (opt_stores opts). declares_default s b" by auto
    have "handlers d' = handlers d1"
    proof (cases r1)
      case (Some e)
      with con run show ?thesis by (simp add: Dispatcher_def)
    next
      case None
      with con run have "d' = snd (forEach registerDomain d1 (opt_domains opts))"
        by (simp add: Dispatcher_def)
      then show ?thesis by (simp add: forEach_registerDomain_handlers)
    qed
    with ext show ?thesis by auto
  qed
qed

theorem default_bucket_witness:
  "js_get (handlers (snd (forEach registerStore new_Dispatcher
                            [JSFunction store_A, JSFunction store_S2]))) ''default''
     = Own (Bindings [])
   \<and> js_get (handlers (snd (forEach registerStore new_Dispatcher
                              [JSFunction store_A, JSFunction store_D]))) ''default''
     = Own (Bindings [\<lparr>name = Some ''D'', handler = MethodName ''onDefault''\<rparr>])"
proof -
  let ?ss = "[JSFunction store_A, JSFunction store_S2]"
  let ?run = "forEach registerStore new_Dispatcher ?ss"
  have run: "?run = (fst ?run, snd ?run)" by simp
  have new: "js_get (handlers new_Dispatcher) ''default'' = Own (Bindings [])"
    by (simp add: new_Dispatcher_def)
  from default_bucket [of new_Dispatcher ?ss "fst ?run" "snd ?run" "[]"] run new
  obtain ext where
    ext: "js_get (handlers (snd ?run)) ''default'' = Own (Bindings ([] @ ext))"
    and only: "\<forall>b \<in> set ext. \<exists>s \<in> set ?ss. declares_default s b"
    by blast
  have "\<not> declares_default (JSFunction store_A) b" for b
    by (simp add: declares_default_def store_A_def)
  moreover have "\<not> declares_default (JSFunction store_S2) b" for b
    by (simp add: declares_default_def store_S2_def)
  ultimately have "ext = []" using only by (cases ext) auto
  with ext have none: "js_get (handlers (snd ?run)) ''default'' = Own (Bindings [])" by simp
  have some: "js_get (handlers (snd (forEach registerStore new_Dispatcher
                              [JSFunction store_A, JSFunction store_D]))) ''default''
     = Own (Bindings [\<lparr>name = Some ''D'', handler = MethodName ''onDefault''\<rparr>])"
    by (simp add: run_defs store_A_def store_D_def)
  from none some show ?thesis by simp
qed

section \<open>Looking a store up\<close>

text \<open>
  Claim C8. After class \<open>A\<close> with canonical name \<open>n\<close> has been registered,
  \<^verbatim>\<open>isRegistered\<close> of the string \<open>n\<close> is true, \<^verbatim>\<open>isRegistered\<close> of \<open>A\<close> is true, and
  \<^verbatim>\<open>isRegistered\<close> of every other class that resolves to the name \<open>n\<close> is false: a
  string argument checks the binding of the name only, a function argument also has to be
  the bound reference.
\<close>

theorem isRegistered_reference_aware:
  assumes "registerStore d (JSFunction A) = (None, d')"
    and "getStoreName (JSFunction A) = Inr (Some n)"
  shows "isRegistered d' (JSString n) = Inr True
         \<and> isRegistered d' (JSFunction A) = Inr True
         \<and> (\<forall>B. B \<noteq> A \<and> getStoreName (JSFunction B) = Inr (Some n)
                \<longrightarrow> isRegistered d' (JSFunction B) = Inr False)"
proof -
  from registerStore_returns_bound [OF assms(1)] assms(2)
  have "js_get (stores d') n = Own (JSFunction A)" by auto
  with assms(2) show ?thesis
    by (auto simp: isRegistered_def Let_def)
qed

theorem isRegistered_reference_aware_witness:
  "isRegistered (snd (registerStore new_Dispatcher (JSFunction store_A))) (JSString ''A'')
     = Inr True
   \<and> isRegistered (snd (registerStore new_Dispatcher (JSFunction store_A))) (JSFunction store_A)
     = Inr True
   \<and> isRegistered (snd (registerStore new_Dispatcher (JSFunction store_A))) (JSFunction store_B)
     = Inr False"
proof -
  have reg: "registerStore new_Dispatcher (JSFunction store_A)
               = (None, snd (registerStore new_Dispatcher (JSFunction store_A)))"
    by (simp add: run_defs store_A_def)
  have nA: "getStoreName (JSFunction store_A) = Inr (Some ''A'')"
    by (simp add: or_name_def store_A_def)
  have nB: "getStoreName (JSFunction store_B) = Inr (Some ''A'')"
    by (simp add: or_name_def store_B_def)
  have ne: "store_B \<noteq> store_A"
    by (simp add: store_A_def store_B_def)
  from isRegistered_reference_aware [OF reg nA] nB ne show ?thesis by blast
qed

section \<open>The exceptions of registerStore\<close>

text \<open>The loop over the handlers can only throw a TypeError, and every exception of
  \<^verbatim>\<open>registerStore\<close> is one of four: the three it raises itself, each before any
  mutation, and the TypeError of the loop, after the store has been bound.\<close>

lemma registerHandler_throws: "registerHandler d a n h = (Some e, d') \<Longrightarrow> e = TypeError"
  by (auto simp: registerHandler_def Let_def split: property.splits handler_entry.splits)

lemma storeHandlersEach_throws: "storeHandlersEach d n hs = (Some e, d') \<Longrightarrow> e = TypeError"
proof (induction hs arbitrary: d)
  case Nil
  then show ?case by simp
next
  case (Cons kh hs)
  obtain a h where kh: "kh = (a, h)" by (cases kh)
  obtain r d1 where step: "registerHandler d a n h = (r, d1)"
    by (cases "registerHandler d a n h")
  show ?case
  proof (cases r)
    case None
    with Cons.prems kh step have "storeHandlersEach d1 n hs = (Some e, d')" by simp
    then show ?thesis by (rule Cons.IH)
  next
    case (Some e1)
    with Cons.prems kh step have "e = e1" by simp
    with Some step show ?thesis by (simp add: registerHandler_throws)
  qed
qed

lemma registerStore_throws_cases:
  assumes "registerStore d s = (Some e, d')"
  shows "(e = invalid_store_error \<and> typeof s \<noteq> ''function'' \<and> d' = d)
       \<or> (e = missing_name_error \<and> typeof s = ''function''
            \<and> (\<exists>nv. getStoreName s = Inr nv \<and> \<not> truthy_name nv) \<and> d' = d)
       \<or> (\<exists>n. e = duplicate_store_error n \<and> typeof s = ''function''
            \<and> getStoreName s = Inr (Some n) \<and> n \<noteq> []
            \<and> truthy_property (js_get (stores d) n) \<and> js_get (stores d) n \<noteq> Own s \<and> d' = d)
       \<or> (e = TypeError \<and> typeof s = ''function''
            \<and> (\<exists>n hs. getStoreName s = Inr (Some n) \<and> n \<noteq> []
                  \<and> \<not> truthy_property (js_get (stores d) n) \<and> handlers_of s = Some hs
                  \<and> storeHandlersEach (d\<lparr>stores := (stores d)(n \<mapsto> s)\<rparr>) n hs = (Some e, d')))"
proof (cases "typeof s = ''function''")
  case False
  with assms show ?thesis by (simp add: registerStore_def)
next
  case True
  then obtain f where s: "s = JSFunction f" by (auto simp: typeof_function)
  then obtain nv where nv: "getStoreName s = Inr nv" by simp
  show ?thesis
  proof (cases "truthy_name nv")
    case False
    with assms True nv show ?thesis by (simp add: registerStore_def)
  next
    case tn: True
    then obtain n where n: "nv = Some n" "n \<noteq> []" by (cases nv) auto
    show ?thesis
    proof (cases "truthy_property (js_get (stores d) n)")
      case bound: True
      with assms True nv n have "\<not> strict_equal (js_get (stores d) n) s"
        "e = duplicate_store_error n" "d' = d"
        by (auto simp: registerStore_def split: if_splits)
      with bound True nv n show ?thesis by (simp add: strict_equal_truthy)
    next
      case unbound: False
      with assms True nv n obtain hs where hs: "handlers_of s = Some hs"
        and run: "storeHandlersEach (d\<lparr>stores := (stores d)(n \<mapsto> s)\<rparr>) n hs = (Some e, d')"
        by (auto simp: registerStore_def Let_def split: option.splits)
      from storeHandlersEach_throws [OF run] have "e = TypeError" .
      with True nv n unbound hs run show ?thesis by blast
    qed
  qed
qed

lemma registerStore_Error_unchanged:
  assumes "registerStore d s = (Some (Error m), d')"
  shows "d' = d"
  using registerStore_throws_cases [OF assms] by auto

text \<open>
  The TypeError needs an action name that is a member of \<^verbatim>\<open>Object.prototype\<close> (or a
  table that already holds such a member). With handler maps whose keys are not such
  names, on a table that holds lists only, \<^verbatim>\<open>registerStore\<close> throws exactly in its three
  cases, in their order, and a call that throws leaves the Dispatcher as it was.
\<close>

lemma registerHandler_plain:
  assumes "a \<notin> set Object_prototype" and "\<forall>a k. handlers d a \<noteq> Some (Builtin k)"
  shows "fst (registerHandler d a n h) = None
         \<and> (\<forall>a' k. handlers (snd (registerHandler d a n h)) a' \<noteq> Some (Builtin k))"
proof -
  obtain bs where step: "registerHandler d a n h =
      (None, d\<lparr>handlers := (handlers d)(a \<mapsto> Bindings (bs @ [\<lparr>name = Some n, handler = h\<rparr>]))\<rparr>)"
  proof (cases "handlers d a")
    case None
    with assms(1) have "js_get (handlers d) a = Absent" by (simp add: js_get_def)
    then have "registerHandler d a n h =
        (None, d\<lparr>handlers := (handlers d)(a \<mapsto> Bindings ([] @ [\<lparr>name = Some n, handler = h\<rparr>]))\<rparr>)"
      by (simp add: registerHandler_def ensure_list_def Let_def)
    then show ?thesis by (rule that)
  next
    case (Some e)
    with assms(2) obtain bs where "e = Bindings bs" by (cases e) auto
    with Some have "js_get (handlers d) a = Own (Bindings bs)" by (simp add: js_get_def)
    then have "registerHandler d a n h =
        (None, d\<lparr>handlers := (handlers d)(a \<mapsto> Bindings (bs @ [\<lparr>name = Some n, handler = h\<rparr>]))\<rparr>)"
      by (simp add: registerHandler_def ensure_list_def Let_def)
    then show ?thesis by (rule that)
  qed
  with assms(2) show ?thesis by simp
qed

lemma storeHandlersEach_plain:
  assumes "\<forall>kh \<in> set hs. fst kh \<notin> set Object_prototype"
    and "\<forall>a k. handlers d a \<noteq> Some (Builtin k)"
  shows "fst (storeHandlersEach d n hs) = None"
  using assms
proof (induction hs arbitrary: d)
  case Nil
  show ?case by simp
next
  case (Cons kh hs)
  obtain a h where kh: "kh = (a, h)" by (cases kh)
  obtain r d1 where step: "registerHandler d a n h = (r, d1)"
    by (cases "registerHandler d a n h")
  from Cons.prems kh have "a \<notin> set Object_prototype" by simp
  from registerHandler_plain [OF this Cons.prems(2), of n h] step
  have r: "r = None" and clean: "\<forall>a k. handlers d1 a \<noteq> Some (Builtin k)" by simp_all
  from Cons.prems(1) have "\<forall>kh \<in> set hs. fst kh \<notin> set Object_prototype" by simp
  from Cons.IH [OF this clean] kh step r show ?case by simp
qed

lemma registerStore_plain_unchanged:
  assumes "registerStore d s = (Some e, d')"
    and "\<forall>hs. handlers_of s = Some hs \<longrightarrow> (\<forall>kh \<in> set hs. fst kh \<notin> set Object_prototype)"
    and "\<forall>a k. handlers d a \<noteq> Some (Builtin k)"
  shows "d' = d \<and> e \<noteq> TypeError"
proof -
  have no: False if "handlers_of s = Some hs"
      and run: "storeHandlersEach (d\<lparr>stores := m\<rparr>) n hs = (Some e, d')" for hs m n
  proof -
    from assms(2) that(1) have "\<forall>kh \<in> set hs. fst kh \<notin> set Object_prototype" by simp
    moreover from assms(3) have "\<forall>a k. handlers (d\<lparr>stores := m\<rparr>) a \<noteq> Some (Builtin k)"
      by simp
    ultimately have "fst (storeHandlersEach (d\<lparr>stores := m\<rparr>) n hs) = None"
      by (rule storeHandlersEach_plain)
    with run show False by simp
  qed
  from registerStore_throws_cases [OF assms(1)] no show ?thesis
    by (auto simp: invalid_store_error_def missing_name_error_def duplicate_store_error_def)
qed

lemma registerStore_plain_policy:
  assumes "\<forall>kh \<in> set (case obj_handlers f of None \<Rightarrow> [] | Some hs \<Rightarrow> hs).
             fst kh \<notin> set Object_prototype"
    and "\<forall>a k. handlers d a \<noteq> Some (Builtin k)"
  shows "fst (registerStore d (JSFunction f)) =
           (case or_name (obj_storeName f) (obj_name f) of
              None \<Rightarrow> Some missing_name_error
            | Some n \<Rightarrow>
                if n = [] then Some missing_name_error
                else if truthy_property (js_get (stores d) n)
                        \<and> js_get (stores d) n \<noteq> Own (JSFunction f)
                then Some (duplicate_store_error n)
                else None)"
proof (cases "or_name (obj_storeName f) (obj_name f)")
  case None
  then show ?thesis by (simp add: registerStore_def)
next
  case (Some n)
  show ?thesis
  proof (cases "n \<noteq> [] \<and> \<not> truthy_property (js_get (stores d) n)")
    case False
    with Some show ?thesis by (auto simp: registerStore_def strict_equal_truthy)
  next
    case True
    have "fst (storeHandlersEach (d\<lparr>stores := m\<rparr>) n hs) = None"
      if "obj_handlers f = Some hs" for hs m
    proof -
      from assms(1) that have "\<forall>kh \<in> set hs. fst kh \<notin> set Object_prototype" by simp
      moreover from assms(2) have "\<forall>a k. handlers (d\<lparr>stores := m\<rparr>) a \<noteq> Some (Builtin k)"
        by simp
      ultimately show ?thesis by (rule storeHandlersEach_plain)
    qed
    with Some True show ?thesis
      by (simp add: registerStore_def Let_def split: option.splits)
  qed
qed

text \<open>
  Claim C1 says that \<^verbatim>\<open>registerStore\<close> throws in three cases only and succeeds on every
  other input. The code does not: on a new Dispatcher, the class \<open>store_T\<close> is a
  function, has the name \<^verbatim>\<open>T\<close>, which is not bound, and its registration throws a
  TypeError, because its handler map has the key \<^verbatim>\<open>toString\<close> and
  \<^verbatim>\<open>this.handlers["toString"]\<close> reads the function inherited from
  \<^verbatim>\<open>Object.prototype\<close>, which has no \<^verbatim>\<open>push\<close>. For the same reason the class
  \<open>store_C\<close>, whose name \<^verbatim>\<open>constructor\<close> no registration has bound, is rejected with
  the duplicate-registration error.
\<close>

theorem registerStore_unlisted_throw:
  "typeof (JSFunction store_T) = ''function''
   \<and> getStoreName (JSFunction store_T) = Inr (Some ''T'')
   \<and> js_get (stores new_Dispatcher) ''T'' = Absent
   \<and> fst (registerStore new_Dispatcher (JSFunction store_T)) = Some TypeError
   \<and> typeof (JSFunction store_C) = ''function''
   \<and> getStoreName (JSFunction store_C) = Inr (Some ''constructor'')
   \<and> stores new_Dispatcher ''constructor'' = None
   \<and> fst (registerStore new_Dispatcher (JSFunction store_C))
       = Some (duplicate_store_error ''constructor'')"
  by (simp add: run_defs store_T_def store_C_def)

text \<open>
  Claim C7 says that a failing call leaves the three tables as they were. The code does
  not: the failing registration of \<open>store_T\<close> on a new Dispatcher leaves \<^verbatim>\<open>T\<close> bound in
  the Store Registry, a binding under \<^verbatim>\<open>foo\<close> and the own property \<^verbatim>\<open>toString\<close> in the
  Handler Table, none of which was there before the call.
\<close>

theorem registerStore_partial_mutation:
  "registerStore new_Dispatcher (JSFunction store_T)
     = (Some TypeError,
        \<lparr>stores = [''T'' \<mapsto> JSFunction store_T], domains = Map.empty,
         handlers = [''default'' \<mapsto> Bindings [],
                     ''foo'' \<mapsto> Bindings [\<lparr>name = Some ''T'', handler = MethodName ''onFoo''\<rparr>],
                     ''toString'' \<mapsto> Builtin ''toString'']\<rparr>)
   \<and> stores new_Dispatcher ''T'' = None
   \<and> handlers new_Dispatcher ''foo'' = None
   \<and> handlers new_Dispatcher ''toString'' = None"
  by (simp add: run_defs store_T_def)

section \<open>Registering a domain\<close>

lemma getStoreName_throws: "getStoreName v = Inl e \<Longrightarrow> e = TypeError"
  by (cases v) simp_all

lemma registerDomain_throws_unchanged:
  "registerDomain d v = (Some e, d') \<Longrightarrow> d' = d"
  by (auto simp: registerDomain_def split: sum.splits if_splits)

text \<open>For a class without a handler map, \<^verbatim>\<open>registerDomain\<close> does to the Domain
  Registry what \<^verbatim>\<open>registerStore\<close> does to the Store Registry, the duplicate error naming
  a domain instead of a store.\<close>

lemma registerDomain_mirrors_registerStore:
  assumes "obj_handlers f = None"
  shows "registerStore (swap_registries d) (JSFunction f) =
           (case registerDomain d (JSFunction f) of
              (r, d') \<Rightarrow>
                (if r = Some (duplicate_domain_error (property_key (or_name (obj_storeName f) (obj_name f))))
                 then Some (duplicate_store_error (property_key (or_name (obj_storeName f) (obj_name f))))
                 else r,
                 swap_registries d'))"
  using assms
  by (auto simp: registerStore_def registerDomain_def swap_registries_def Let_def
        missing_name_error_def duplicate_domain_error_def duplicate_store_error_def)

text \<open>
  Counterexample to claim C4 as stated. \<^verbatim>\<open>registerDomain\<close> has no \<^verbatim>\<open>typeof\<close> check:
  called on a new Dispatcher with the string \<^verbatim>\<open>"A"\<close>, or with a plain object whose
  \<^verbatim>\<open>storeName\<close> is \<^verbatim>\<open>"A"\<close>, it does not fail with the invalid-argument error but
  returns, having bound \<^verbatim>\<open>domains["A"]\<close> to the argument.
\<close>

theorem registerDomain_accepts_string:
  "typeof (JSString ''A'') \<noteq> ''function''
   \<and> registerDomain new_Dispatcher (JSString ''A'')
       = (None, new_Dispatcher\<lparr>domains := [''A'' \<mapsto> JSString ''A'']\<rparr>)
   \<and> fst (registerDomain new_Dispatcher (JSString ''A'')) \<noteq> Some invalid_store_error
   \<and> typeof (JSObject domain_A) \<noteq> ''function''
   \<and> registerDomain new_Dispatcher (JSObject domain_A)
       = (None, new_Dispatcher\<lparr>domains := [''A'' \<mapsto> JSObject domain_A]\<rparr>)"
  by (simp add: run_defs domain_A_def)

text \<open>
  Claim C4, amended. \<^verbatim>\<open>registerDomain\<close> has the missing-name check and the duplicate
  policy of \<^verbatim>\<open>registerStore\<close>, but no constructor precondition: it never raises the
  invalid-argument error. It resolves the name first, so \<^verbatim>\<open>null\<close> and \<^verbatim>\<open>undefined\<close>
  raise the TypeError of the name resolution; an argument without a non-empty name
  raises the missing-name error; a name bound to the identical value is a silent no-op;
  a name bound to anything else raises the duplicate-registration error naming the
  conflict; otherwise the name is bound to the argument, whatever its type, in the Domain
  Registry. In every case the Store Registry and the Handler Table are left as they
  were, and a failing call leaves the Domain Registry as it was too.
\<close>

theorem registerDomain_policy:
  "stores (snd (registerDomain d v)) = stores d
   \<and> handlers (snd (registerDomain d v)) = handlers d
   \<and> fst (registerDomain d v) \<noteq> Some invalid_store_error
   \<and> (getStoreName v = Inl e \<longrightarrow> registerDomain d v = (Some e, d))
   \<and> (getStoreName v = Inr nv \<longrightarrow> \<not> truthy_name nv \<longrightarrow>
        registerDomain d v = (Some missing_name_error, d))
   \<and> (getStoreName v = Inr (Some n) \<longrightarrow> n \<noteq> [] \<longrightarrow>
        (js_get (domains d) n = Own v \<longrightarrow> registerDomain d v = (None, d))
        \<and> (truthy_property (js_get (domains d) n) \<longrightarrow> js_get (domains d) n \<noteq> Own v \<longrightarrow>
             registerDomain d v = (Some (duplicate_domain_error n), d))
        \<and> (\<not> truthy_property (js_get (domains d) n) \<longrightarrow>
             registerDomain d v = (None, d\<lparr>domains := (domains d)(n \<mapsto> v)\<rparr>)))"
proof -
  have truthy_arg: "truthy v" if "getStoreName v = Inr (Some n)" "n \<noteq> []" for n
    using that by (cases v) auto
  have c1: "stores (snd (registerDomain d v)) = stores d"
    by (rule registerDomain_stores)
  have c2: "handlers (snd (registerDomain d v)) = handlers d"
    by (rule registerDomain_handlers)
  have c3: "fst (registerDomain d v) \<noteq> Some invalid_store_error"
    by (auto simp: registerDomain_def invalid_store_error_def missing_name_error_def
          duplicate_domain_error_def split: sum.splits dest: getStoreName_throws)
  have c4: "getStoreName v = Inl e \<Longrightarrow> registerDomain d v = (Some e, d)"
    by (simp add: registerDomain_def)
  have c5: "getStoreName v = Inr nv \<Longrightarrow> \<not> truthy_name nv \<Longrightarrow>
      registerDomain d v = (Some missing_name_error, d)"
    by (simp add: registerDomain_def)
  have c6: "getStoreName v = Inr (Some n) \<Longrightarrow> n \<noteq> [] \<Longrightarrow> js_get (domains d) n = Own v
      \<Longrightarrow> registerDomain d v = (None, d)"
    using truthy_arg by (simp add: registerDomain_def)
  have c7: "getStoreName v = Inr (Some n) \<Longrightarrow> n \<noteq> [] \<Longrightarrow>
      truthy_property (js_get (domains d) n) \<Longrightarrow> js_get (domains d) n \<noteq> Own v \<Longrightarrow>
      registerDomain d v = (Some (duplicate_domain_error n), d)"
    by (simp add: registerDomain_def strict_equal_truthy)
  have c8: "getStoreName v = Inr (Some n) \<Longrightarrow> n \<noteq> [] \<Longrightarrow>
      \<not> truthy_property (js_get (domains d) n) \<Longrightarrow>
      registerDomain d v = (None, d\<lparr>domains := (domains d)(n \<mapsto> v)\<rparr>)"
    by (simp add: registerDomain_def)
  from c1 c2 c3 c4 c5 c6 c7 c8 show ?thesis by blast
qed

theorem registerDomain_policy_witness:
  "registerDomain new_Dispatcher JSNull = (Some TypeError, new_Dispatcher)
   \<and> registerDomain new_Dispatcher (JSString []) = (Some missing_name_error, new_Dispatcher)
   \<and> registerDomain new_Dispatcher (JSString ''A'')
       = (None, new_Dispatcher\<lparr>domains := [''A'' \<mapsto> JSString ''A'']\<rparr>)
   \<and> registerDomain (new_Dispatcher\<lparr>domains := [''A'' \<mapsto> JSString ''A'']\<rparr>) (JSString ''A'')
       = (None, new_Dispatcher\<lparr>domains := [''A'' \<mapsto> JSString ''A'']\<rparr>)
   \<and> registerDomain (new_Dispatcher\<lparr>domains := [''A'' \<mapsto> JSString ''A'']\<rparr>) (JSObject domain_A)
       = (Some (duplicate_domain_error ''A''), new_Dispatcher\<lparr>domains := [''A'' \<mapsto> JSString ''A'']\<rparr>)"
proof -
  let ?d = "new_Dispatcher\<lparr>domains := [''A'' \<mapsto> JSString ''A'']\<rparr>"
  have nA: "getStoreName (JSObject domain_A) = Inr (Some ''A'')"
    by (simp add: or_name_def domain_A_def)
  have 1: "registerDomain new_Dispatcher JSNull = (Some TypeError, new_Dispatcher)"
    using registerDomain_policy [of new_Dispatcher JSNull TypeError] by simp
  have 2: "registerDomain new_Dispatcher (JSString []) = (Some missing_name_error, new_Dispatcher)"
    using registerDomain_policy [of new_Dispatcher "JSString []" _ "Some []"] by simp
  have 3: "registerDomain new_Dispatcher (JSString ''A'')
       = (None, new_Dispatcher\<lparr>domains := [''A'' \<mapsto> JSString ''A'']\<rparr>)"
    using registerDomain_policy [of new_Dispatcher "JSString ''A''" _ _ "''A''"]
    by (simp add: new_Dispatcher_def js_get_def Object_prototype_def)
  have 4: "registerDomain ?d (JSString ''A'') = (None, ?d)"
    using registerDomain_policy [of ?d "JSString ''A''" _ _ "''A''"]
    by (simp add: new_Dispatcher_def)
  have 5: "registerDomain ?d (JSObject domain_A) = (Some (duplicate_domain_error ''A''), ?d)"
    using registerDomain_policy [of ?d "JSObject domain_A" _ _ "''A''"] nA
    by (simp add: new_Dispatcher_def)
  from 1 2 3 4 5 show ?thesis by simp
qed

section \<open>The two namespaces\<close>

lemma ensure_list_domains_upd:
  "ensure_list (d\<lparr>domains := x\<rparr>) a = (ensure_list d a)\<lparr>domains := x\<rparr>"
  by (simp add: ensure_list_def split: property.splits)

lemma registerHandler_domains_upd:
  "registerHandler (d\<lparr>domains := x\<rparr>) a n h =
     (fst (registerHandler d a n h), (snd (registerHandler d a n h))\<lparr>domains := x\<rparr>)"
  by (simp add: registerHandler_def ensure_list_domains_upd Let_def
        split: property.splits handler_entry.splits)

lemma storeHandlersEach_domains_upd:
  "storeHandlersEach (d\<lparr>domains := x\<rparr>) n hs =
     (fst (storeHandlersEach d n hs), (snd (storeHandlersEach d n hs))\<lparr>domains := x\<rparr>)"
proof (induction hs arbitrary: d)
  case Nil
  show ?case by simp
next
  case (Cons kh hs)
  obtain a h where kh: "kh = (a, h)" by (cases kh)
  obtain r d1 where step: "registerHandler d a n h = (r, d1)"
    by (cases "registerHandler d a n h")
  then have "registerHandler (d\<lparr>domains := x\<rparr>) a n h = (r, d1\<lparr>domains := x\<rparr>)"
    by (simp add: registerHandler_domains_upd)
  then show ?case using kh step Cons.IH [of d1] by (cases r) simp_all
qed

lemma registerStore_domains_upd:
  "registerStore (d\<lparr>domains := x\<rparr>) s =
     (fst (registerStore d s), (snd (registerStore d s))\<lparr>domains := x\<rparr>)"
proof -
  have eq: "d\<lparr>domains := x, stores := m\<rparr> = (d\<lparr>stores := m\<rparr>)\<lparr>domains := x\<rparr>" for m
    by simp
  have "storeHandlersEach (d\<lparr>domains := x, stores := m\<rparr>) n hs =
          (fst (storeHandlersEach (d\<lparr>stores := m\<rparr>) n hs),
           (snd (storeHandlersEach (d\<lparr>stores := m\<rparr>) n hs))\<lparr>domains := x\<rparr>)" for m n hs
    unfolding eq by (rule storeHandlersEach_domains_upd)
  then show ?thesis
    by (simp add: registerStore_def Let_def split: sum.splits option.splits)
qed

lemma registerDomain_stores_handlers_upd:
  "registerDomain (d\<lparr>stores := x, handlers := y\<rparr>) v =
     (fst (registerDomain d v), (snd (registerDomain d v))\<lparr>stores := x, handlers := y\<rparr>)"
  by (simp add: registerDomain_def split: sum.splits)

lemma isRegistered_domains_upd: "isRegistered (d\<lparr>domains := x\<rparr>) v = isRegistered d v"
  by (simp add: isRegistered_def Let_def split: sum.splits)

lemma registerDomain_returns_bound:
  assumes "registerDomain d v = (None, d')"
  shows "\<exists>nm. getStoreName v = Inr (Some nm) \<and> nm \<noteq> [] \<and> js_get (domains d') nm = Own v"
proof -
  from assms obtain nv where nv: "getStoreName v = Inr nv"
    by (cases "getStoreName v") (auto simp: registerDomain_def)
  with assms have "truthy_name nv"
    by (auto simp: registerDomain_def split: if_splits)
  then obtain nm where nm: "nv = Some nm" "nm \<noteq> []" by (cases nv) auto
  have "js_get (domains d') nm = Own v"
  proof (cases "truthy_property (js_get (domains d) nm)")
    case True
    with assms nv nm have "strict_equal (js_get (domains d) nm) v" "d' = d"
      by (auto simp: registerDomain_def split: if_splits)
    with True show ?thesis by (simp add: strict_equal_truthy)
  next
    case False
    with assms nv nm have "d' = d\<lparr>domains := (domains d)(nm \<mapsto> v)\<rparr>"
      by (auto simp: registerDomain_def)
    then show ?thesis by simp
  qed
  with nv nm show ?thesis by blast
qed

text \<open>
  What the two registration methods do is independent of the other registry. Take any
  Dispatcher \<open>d\<close>, a store \<open>s\<close> and a domain \<open>v\<close> that resolve to the same name
  \<open>n\<close> and that can each be registered on \<open>d\<close>. Then registering the store and then the
  domain, or the domain and then the store, both succeed with no duplicate-registration
  error and end in the same state; there the name \<open>n\<close> reads as \<open>s\<close> in the Store
  Registry and as \<open>v\<close> in the Domain Registry, and \<^verbatim>\<open>isRegistered\<close> answers as it does
  without the domain.
\<close>

lemma namespaces_independent:
  assumes store_alone: "registerStore d s = (None, ds)"
    and domain_alone: "registerDomain d v = (None, dd)"
    and store_name: "getStoreName s = Inr (Some n)"
    and domain_name: "getStoreName v = Inr (Some n)"
  shows "\<exists>both. registerDomain ds v = (None, both) \<and> registerStore dd s = (None, both)
           \<and> js_get (stores both) n = Own s \<and> js_get (domains both) n = Own v
           \<and> stores both = stores ds \<and> handlers both = handlers ds
           \<and> domains both = domains dd
           \<and> (\<forall>x. isRegistered both x = isRegistered ds x)"
proof -
  let ?both = "\<lparr>stores = stores ds, domains = domains dd, handlers = handlers ds\<rparr>"
  have ds: "ds = d\<lparr>stores := stores ds, handlers := handlers ds\<rparr>"
    using registerStore_domains [of d s] store_alone by simp
  have dd: "dd = d\<lparr>domains := domains dd\<rparr>"
    using registerDomain_stores [of d v] registerDomain_handlers [of d v] domain_alone by simp
  have "registerDomain (d\<lparr>stores := stores ds, handlers := handlers ds\<rparr>) v
          = (None, dd\<lparr>stores := stores ds, handlers := handlers ds\<rparr>)"
    using domain_alone by (simp add: registerDomain_stores_handlers_upd)
  with ds have 1: "registerDomain ds v = (None, ?both)" by simp
  have "registerStore (d\<lparr>domains := domains dd\<rparr>) s = (None, ds\<lparr>domains := domains dd\<rparr>)"
    using store_alone by (simp add: registerStore_domains_upd)
  with dd have 2: "registerStore dd s = (None, ?both)" by simp
  have 3: "js_get (stores ?both) n = Own s \<and> js_get (domains ?both) n = Own v"
    using registerStore_returns_bound [OF store_alone]
      registerDomain_returns_bound [OF domain_alone] store_name domain_name by auto
  have 4: "isRegistered ?both x = isRegistered ds x" for x
    by (simp add: isRegistered_def Let_def split: sum.splits)
  from 1 2 3 4 show ?thesis by simp
qed

lemma namespaces_independent_example:
  "registerDomain (snd (registerStore new_Dispatcher (JSFunction store_A))) (JSObject domain_A)
     = registerStore (snd (registerDomain new_Dispatcher (JSObject domain_A))) (JSFunction store_A)
   \<and> fst (registerDomain (snd (registerStore new_Dispatcher (JSFunction store_A)))
            (JSObject domain_A)) = None
   \<and> js_get (stores (snd (registerDomain (snd (registerStore new_Dispatcher (JSFunction store_A)))
                            (JSObject domain_A)))) ''A'' = Own (JSFunction store_A)
   \<and> js_get (domains (snd (registerDomain (snd (registerStore new_Dispatcher (JSFunction store_A)))
                            (JSObject domain_A)))) ''A'' = Own (JSObject domain_A)"
proof -
  let ?ds = "snd (registerStore new_Dispatcher (JSFunction store_A))"
  let ?dd = "snd (registerDomain new_Dispatcher (JSObject domain_A))"
  have s: "registerStore new_Dispatcher (JSFunction store_A) = (None, ?ds)"
    by (simp add: run_defs store_A_def)
  have v: "registerDomain new_Dispatcher (JSObject domain_A) = (None, ?dd)"
    by (simp add: run_defs domain_A_def)
  have ns: "getStoreName (JSFunction store_A) = Inr (Some ''A'')"
    by (simp add: or_name_def store_A_def)
  have nv: "getStoreName (JSObject domain_A) = Inr (Some ''A'')"
    by (simp add: or_name_def domain_A_def)
  from namespaces_independent [OF s v ns nv] obtain both where
    "registerDomain ?ds (JSObject domain_A) = (None, both)"
    "registerStore ?dd (JSFunction store_A) = (None, both)"
    "js_get (stores both) ''A'' = Own (JSFunction store_A)"
    "js_get (domains both) ''A'' = Own (JSObject domain_A)"
    by blast
  then show ?thesis by simp
qed

text \<open>
  Claim C9 says that, for every name, a store and a domain registered under that name
  both succeed with no duplicate-registration conflict, and that each lookup sees only
  its own namespace. The code does not do so in two places. First the lookups: on a new
  Dispatcher the class \<open>store_A\<close> and the domain \<open>domain_A\<close>, both named \<^verbatim>\<open>A\<close>, are
  registered without conflict and \<^verbatim>\<open>isRegistered("A")\<close> is true, but the lookup of the
  Domain Registry, \<^verbatim>\<open>isRegisteredDomain\<close>, throws a ReferenceError for the name and for
  the domain itself instead of seeing the domain. Second the names: under the name
  \<^verbatim>\<open>constructor\<close>, which no registration has bound in either registry, the
  registration of the store \<open>store_C\<close> and the registration of the domain \<open>domain_C\<close>
  are both rejected with the duplicate-registration error and leave the Dispatcher as it
  was, because both registries read the member of that name inherited from
  \<^verbatim>\<open>Object.prototype\<close>.
\<close>

theorem namespaces_lookup_and_inherited_name:
  "registerStore new_Dispatcher (JSFunction store_A)
     = (None, \<lparr>stores = [''A'' \<mapsto> JSFunction store_A], domains = Map.empty,
               handlers = [''default'' \<mapsto> Bindings [],
                           ''foo'' \<mapsto> Bindings [\<lparr>name = Some ''A'',
                                                handler = MethodName ''onFoo''\<rparr>]]\<rparr>)
   \<and> registerDomain
         \<lparr>stores = [''A'' \<mapsto> JSFunction store_A], domains = Map.empty,
          handlers = [''default'' \<mapsto> Bindings [],
                      ''foo'' \<mapsto> Bindings [\<lparr>name = Some ''A'',
                                           handler = MethodName ''onFoo''\<rparr>]]\<rparr>
         (JSObject domain_A)
     = (None, \<lparr>stores = [''A'' \<mapsto> JSFunction store_A],
               domains = [''A'' \<mapsto> JSObject domain_A],
               handlers = [''default'' \<mapsto> Bindings [],
                           ''foo'' \<mapsto> Bindings [\<lparr>name = Some ''A'',
                                                handler = MethodName ''onFoo''\<rparr>]]\<rparr>)
   \<and> isRegistered
         \<lparr>stores = [''A'' \<mapsto> JSFunction store_A],
          domains = [''A'' \<mapsto> JSObject domain_A],
          handlers = [''default'' \<mapsto> Bindings [],
                      ''foo'' \<mapsto> Bindings [\<lparr>name = Some ''A'',
                                           handler = MethodName ''onFoo''\<rparr>]]\<rparr>
         (JSString ''A'') = Inr True
   \<and> isRegisteredDomain
         \<lparr>stores = [''A'' \<mapsto> JSFunction store_A],
          domains = [''A'' \<mapsto> JSObject domain_A],
          handlers = [''default'' \<mapsto> Bindings [],
                      ''foo'' \<mapsto> Bindings [\<lparr>name = Some ''A'',
                                           handler = MethodName ''onFoo''\<rparr>]]\<rparr>
         (JSString ''A'') = Inl ReferenceError
   \<and> isRegisteredDomain
         \<lparr>stores = [''A'' \<mapsto> JSFunction store_A],
          domains = [''A'' \<mapsto> JSObject domain_A],
          handlers = [''default'' \<mapsto> Bindings [],
                      ''foo'' \<mapsto> Bindings [\<lparr>name = Some ''A'',
                                           handler = MethodName ''onFoo''\<rparr>]]\<rparr>
         (JSObject domain_A) = Inl ReferenceError
   \<and> getStoreName (JSFunction store_C) = Inr (Some ''constructor'')
   \<and> getStoreName (JSObject domain_C) = Inr (Some ''constructor'')
   \<and> stores new_Dispatcher ''constructor'' = None
   \<and> domains new_Dispatcher ''constructor'' = None
   \<and> registerStore new_Dispatcher (JSFunction store_C)
       = (Some (duplicate_store_error ''constructor''), new_Dispatcher)
   \<and> registerDomain new_Dispatcher (JSObject domain_C)
       = (Some (duplicate_domain_error ''constructor''), new_Dispatcher)"
  by (simp add: run_defs isRegisteredDomain_def isRegisteredDomain_scope_def
        store_A_def domain_A_def store_C_def domain_C_def)

section \<open>Looking a domain up\<close>

text \<open>
  Claim C5 says that \<^verbatim>\<open>isRegisteredDomain\<close> returns a boolean. The code does not: after
  \<^verbatim>\<open>registerDomain(A)\<close> on a new Dispatcher, \<^verbatim>\<open>isRegisteredDomain("A")\<close> and
  \<^verbatim>\<open>isRegisteredDomain(A)\<close> throw a ReferenceError where the claim says true, and no
  call of \<^verbatim>\<open>isRegisteredDomain\<close> on any Dispatcher and argument returns a boolean.
\<close>

theorem isRegisteredDomain_throws:
  "registerDomain new_Dispatcher (JSFunction store_A)
     = (None, new_Dispatcher\<lparr>domains := [''A'' \<mapsto> JSFunction store_A]\<rparr>)
   \<and> isRegisteredDomain (new_Dispatcher\<lparr>domains := [''A'' \<mapsto> JSFunction store_A]\<rparr>)
        (JSString ''A'') = Inl ReferenceError
   \<and> isRegisteredDomain (new_Dispatcher\<lparr>domains := [''A'' \<mapsto> JSFunction store_A]\<rparr>)
        (JSFunction store_A) = Inl ReferenceError
   \<and> isRegisteredDomain d v \<noteq> Inr b"
  by (simp add: run_defs store_A_def isRegisteredDomain_def isRegisteredDomain_scope_def
        split: sum.splits)

section \<open>Null and undefined arguments\<close>

text \<open>
  Claim C10. For a \<^verbatim>\<open>null\<close> or \<^verbatim>\<open>undefined\<close> argument \<^verbatim>\<open>getStoreName\<close> throws a
  TypeError (the property read \<^verbatim>\<open>store.storeName\<close> on a missing object), and so does
  every method that calls it first: \<^verbatim>\<open>isRegistered\<close>, \<^verbatim>\<open>registerDomain\<close> and
  \<^verbatim>\<open>isRegisteredDomain\<close>. None of them returns false or raises the missing-name error.
  Only \<^verbatim>\<open>registerStore\<close> is protected: its \<^verbatim>\<open>typeof\<close> check comes first and raises the
  invalid-store error. In every case the registries are left as they were.
\<close>

theorem null_undefined_TypeError:
  "getStoreName JSNull = Inl TypeError
   \<and> getStoreName JSUndefined = Inl TypeError
   \<and> isRegistered d JSNull = Inl TypeError
   \<and> isRegistered d JSUndefined = Inl TypeError
   \<and> registerDomain d JSNull = (Some TypeError, d)
   \<and> registerDomain d JSUndefined = (Some TypeError, d)
   \<and> isRegisteredDomain d JSNull = Inl TypeError
   \<and> isRegisteredDomain d JSUndefined = Inl TypeError
   \<and> registerStore d JSNull = (Some invalid_store_error, d)
   \<and> registerStore d JSUndefined = (Some invalid_store_error, d)
   \<and> invalid_store_error \<noteq> TypeError
   \<and> missing_name_error \<noteq> TypeError"
  by (simp add: isRegistered_def registerDomain_def isRegisteredDomain_def
        registerStore_def invalid_store_error_def missing_name_error_def)

theorem null_undefined_TypeError_witness:
  "isRegistered new_Dispatcher JSNull = Inl TypeError
   \<and> registerDomain new_Dispatcher JSUndefined = (Some TypeError, new_Dispatcher)
   \<and> isRegisteredDomain new_Dispatcher JSNull = Inl TypeError
   \<and> registerStore new_Dispatcher JSNull = (Some invalid_store_error, new_Dispatcher)"
  using null_undefined_TypeError [of new_Dispatcher] by simp

end
